theory Spec2Isabelle
  imports Main "HOL-Library.Word"
begin

section \<open>JavaScript values\<close>

text \<open>
  The values the program handles are what \<^verbatim>\<open>JSON.parse\<close> and the HTTP client produce:
  JSON data. A string is the list of its characters. A number is an integral Number from
  \<^verbatim>\<open>-2^53\<close> to \<^verbatim>\<open>2^53 - 1\<close>: in that range every integer is a Number and ToString
  writes exactly its decimal digits. It is held as a signed word of 54 bits, so that no
  other integer is a value of the model; the program does no arithmetic on it. Numbers
  with a fraction or beyond that range, whose text is a matter of floating-point
  formatting, are outside the model. An object is the list of its own properties in
  enumeration order. \<^verbatim>\<open>undefined\<close> is not a JSON value: where the program can meet it
  (a missing property, an omitted parameter, an absent response body) the model uses
  \<open>json option\<close>, with \<open>None\<close> for \<^verbatim>\<open>undefined\<close>.
\<close>

datatype json =
    JNull
  | JBool bool
  | JNum "54 word"
  | JStr string
  | JArr "json list"
  | JObj "(string \<times> json) list"

text \<open>ToBoolean: what \<^verbatim>\<open>!x\<close> and \<^verbatim>\<open>x || y\<close> test.\<close>

fun truthy :: "json \<Rightarrow> bool" where
  "truthy JNull = False"
| "truthy (JBool b) = b"
| "truthy (JNum n) = (n \<noteq> 0)"
| "truthy (JStr s) = (s \<noteq> [])"
| "truthy (JArr xs) = True"
| "truthy (JObj kvs) = True"

definition is_truthy :: "json option \<Rightarrow> bool" where
  "is_truthy x = (case x of None \<Rightarrow> False | Some v \<Rightarrow> truthy v)"

text \<open>\<^verbatim>\<open>x || d\<close> for a possibly undefined \<open>x\<close>.\<close>

definition or_else :: "json option \<Rightarrow> json \<Rightarrow> json" where
  "or_else x d = (case x of None \<Rightarrow> d | Some v \<Rightarrow> if truthy v then v else d)"

text \<open>Property read \<^verbatim>\<open>o.k\<close> on a non-null value, for a key that no prototype defines.\<close>

fun get_prop :: "json \<Rightarrow> string \<Rightarrow> json option" where
  "get_prop (JObj kvs) k = map_of kvs k"
| "get_prop v k = None"

subsection \<open>Number and value to string\<close>

definition digit_char :: "nat \<Rightarrow> char" where
  "digit_char d = ''0123456789'' ! d"

fun show_nat :: "nat \<Rightarrow> string" where
  "show_nat n = (if n < 10 then [digit_char n] else show_nat (n div 10) @ [digit_char (n mod 10)])"

declare show_nat.simps [simp del]

definition show_int :: "int \<Rightarrow> string" where
  "show_int i = (if i < 0 then CHR ''-'' # show_nat (nat (- i)) else show_nat (nat i))"

text \<open>ToString of a number of the model: the decimal digits of its signed value.\<close>

definition Number_toString :: "54 word \<Rightarrow> string" where
  "Number_toString n = show_int (sint n)"

fun join :: "string \<Rightarrow> string list \<Rightarrow> string" where
  "join sep [] = []"
| "join sep [x] = x"
| "join sep (x # y # ys) = x @ sep @ join sep (y # ys)"

text \<open>
  ToString, as a template literal \<^verbatim>\<open>`${v}`\<close> and \<^verbatim>\<open>String(v)\<close> apply it. An array
  joins its elements with commas, a null element giving the empty string.
\<close>

fun to_string :: "json \<Rightarrow> string"
  and to_string_elems :: "json list \<Rightarrow> string list" where
  "to_string JNull = ''null''"
| "to_string (JBool b) = (if b then ''true'' else ''false'')"
| "to_string (JNum n) = Number_toString n"
| "to_string (JStr s) = s"
| "to_string (JArr xs) = join '','' (to_string_elems xs)"
| "to_string (JObj kvs) = ''[object Object]''"
| "to_string_elems [] = []"
| "to_string_elems (x # xs) = (if x = JNull then [] else to_string x) # to_string_elems xs"

definition to_string_opt :: "json option \<Rightarrow> string" where
  "to_string_opt x = (case x of None \<Rightarrow> ''undefined'' | Some v \<Rightarrow> to_string v)"

section \<open>The built-in \<^verbatim>\<open>JSON.stringify(value, null, space)\<close>\<close>

definition hex_char :: "nat \<Rightarrow> char" where
  "hex_char d = ''0123456789abcdef'' ! d"

text \<open>QuoteJSONString: the escapes of one character, then of a string.\<close>

definition quote_char :: "char \<Rightarrow> string" where
  "quote_char c =
     (if c = CHR 0x08 then [CHR 0x5C, CHR ''b'']
      else if c = CHR 0x09 then [CHR 0x5C, CHR ''t'']
      else if c = CHR 0x0A then [CHR 0x5C, CHR ''n'']
      else if c = CHR 0x0C then [CHR 0x5C, CHR ''f'']
      else if c = CHR 0x0D then [CHR 0x5C, CHR ''r'']
      else if c = CHR 0x22 then [CHR 0x5C, CHR 0x22]
      else if c = CHR 0x5C then [CHR 0x5C, CHR 0x5C]
      else if (of_char c :: nat) < 0x20
        then [CHR 0x5C, CHR ''u'', CHR ''0'', CHR ''0'',
              hex_char (of_char c div 16), hex_char (of_char c mod 16)]
      else [c])"

definition QuoteJSONString :: "string \<Rightarrow> string" where
  "QuoteJSONString s = CHR 0x22 # concat (map quote_char s) @ [CHR 0x22]"

text \<open>
  SerializeJSONProperty, SerializeJSONArray and SerializeJSONObject: \<open>gap\<close> is the
  indentation unit and \<open>ind\<close> the current indentation.
\<close>

fun SerializeJSONProperty :: "string \<Rightarrow> string \<Rightarrow> json \<Rightarrow> string"
  and SerializeJSONArray :: "string \<Rightarrow> string \<Rightarrow> json list \<Rightarrow> string list"
  and SerializeJSONObject :: "string \<Rightarrow> string \<Rightarrow> (string \<times> json) list \<Rightarrow> string list" where
  "SerializeJSONProperty gap ind JNull = ''null''"
| "SerializeJSONProperty gap ind (JBool b) = (if b then ''true'' else ''false'')"
| "SerializeJSONProperty gap ind (JNum n) = Number_toString n"
| "SerializeJSONProperty gap ind (JStr s) = QuoteJSONString s"
| "SerializeJSONProperty gap ind (JArr xs) =
     (let partial = SerializeJSONArray gap (ind @ gap) xs in
      if partial = [] then ''[]''
      else if gap = [] then ''['' @ join '','' partial @ '']''
      else ''['' @ CHR 0x0A # (ind @ gap) @ join ('','' @ CHR 0x0A # (ind @ gap)) partial
           @ CHR 0x0A # ind @ '']'')"
| "SerializeJSONProperty gap ind (JObj kvs) =
     (let partial = SerializeJSONObject gap (ind @ gap) kvs in
      if partial = [] then ''{}''
      else if gap = [] then ''{'' @ join '','' partial @ ''}''
      else ''{'' @ CHR 0x0A # (ind @ gap) @ join ('','' @ CHR 0x0A # (ind @ gap)) partial
           @ CHR 0x0A # ind @ ''}'')"
| "SerializeJSONArray gap ind [] = []"
| "SerializeJSONArray gap ind (x # xs) =
     SerializeJSONProperty gap ind x # SerializeJSONArray gap ind xs"
| "SerializeJSONObject gap ind [] = []"
| "SerializeJSONObject gap ind ((k, v) # kvs) =
     (QuoteJSONString k @ '':'' @ (if gap = [] then [] else '' '')
        @ SerializeJSONProperty gap ind v)
     # SerializeJSONObject gap ind kvs"

definition JSON_stringify :: "json \<Rightarrow> nat \<Rightarrow> string" where
  "JSON_stringify v space = SerializeJSONProperty (replicate (min 10 space) CHR '' '') [] v"

section \<open>Result formatter\<close>

text \<open>
  \<^verbatim>\<open>formatAsJson(data)\<close> is \<^verbatim>\<open>JSON.stringify(data, null, 2)\<close>, which is
  \<^verbatim>\<open>undefined\<close> for undefined data.
\<close>

definition formatAsJson :: "json option \<Rightarrow> string option" where
  "formatAsJson data = (case data of None \<Rightarrow> None | Some v \<Rightarrow> Some (JSON_stringify v 2))"

text \<open>\<open>encode\<close> is the function of that name of the library \<^verbatim>\<open>@toon-format/toon\<close>.\<close>

definition formatAsToon :: "(json \<Rightarrow> string) \<Rightarrow> json option \<Rightarrow> string" where
  "formatAsToon encode data =
     (case data of
        None \<Rightarrow> []
      | Some v \<Rightarrow> if \<not> truthy v then [] else encode v)"

text \<open>The parameter default \<^verbatim>\<open>format = 'json'\<close> replaces an undefined argument.\<close>

definition default_format :: "json option \<Rightarrow> json" where
  "default_format format = (case format of None \<Rightarrow> JStr ''json'' | Some f \<Rightarrow> f)"

definition formatResult :: "(json \<Rightarrow> string) \<Rightarrow> json option \<Rightarrow> json option \<Rightarrow> string option" where
  "formatResult encode data format =
     (if default_format format = JStr ''toon'' then Some (formatAsToon encode data)
      else formatAsJson data)"

section \<open>Configuration and HTTP client\<close>

text \<open>
  What can be thrown: an \<^verbatim>\<open>Error\<close> with its message, an error of the HTTP library
  (\<^verbatim>\<open>axios.isAxiosError\<close> holds) with its optional \<^verbatim>\<open>response\<close> and its message, or
  any other value.
\<close>

record response =
  resp_status :: nat
  resp_data :: "json option"

datatype js_error =
    JsError string
  | AxiosError "response option" string
  | Thrown json

text \<open>\<^verbatim>\<open>error instanceof Error ? error.message : String(error)\<close>\<close>

fun error_message :: "js_error \<Rightarrow> string" where
  "error_message (JsError m) = m"
| "error_message (AxiosError r m) = m"
| "error_message (Thrown v) = to_string v"

record SentryClientOptions =
  baseUrl :: string
  authToken :: string
  organization :: string

text \<open>
  The module \<^verbatim>\<open>config-loader.js\<close> is not among the sources. What the program uses of a
  loaded configuration is taken as given: its two defaults, and the function
  \<^verbatim>\<open>getSentryClientOptions(config, profileName)\<close>, which returns the options of a
  profile or throws.
\<close>

record Config =
  defaultProfile :: string
  defaultFormat :: string
  getSentryClientOptions :: "json \<Rightarrow> js_error + SentryClientOptions"

text \<open>
  A client object made by \<^verbatim>\<open>axios.create\<close>. Two clients are the same object when
  their references are equal; a new object takes the next unused reference.
\<close>

record AxiosInstance =
  ref :: nat
  baseURL :: string
  headers :: "(string \<times> string) list"

datatype http_method = GET | PUT

record http_request =
  req_method :: http_method
  req_client :: AxiosInstance
  req_url :: string
  req_params :: "json option"
  req_body :: "json option"

text \<open>
  The surroundings of a run: the outcome of \<^verbatim>\<open>loadConfig(projectRoot)\<close>, the encoder of
  the toon library, and the upstream service, which answers a request with a response
  (the promise resolves: a 2xx status) or makes the call throw.
\<close>

record env =
  loadConfig :: "js_error + Config"
  encode :: "json \<Rightarrow> string"
  http :: "http_request \<Rightarrow> js_error + response"

record ApiResult =
  success :: bool
  result :: "string option"
  data :: "json option"
  error :: "string option"

subsection \<open>The class SentryUtil\<close>

text \<open>
  \<^verbatim>\<open>clientPool\<close> is a \<^verbatim>\<open>Map\<close>: its entries in insertion order. \<^verbatim>\<open>Map.prototype.set\<close>
  replaces the value of a key that is present and appends a new key.
\<close>

record SentryUtil =
  config :: Config
  clientPool :: "(json \<times> AxiosInstance) list"

fun Map_set :: "'k \<Rightarrow> 'v \<Rightarrow> ('k \<times> 'v) list \<Rightarrow> ('k \<times> 'v) list" where
  "Map_set k v [] = [(k, v)]"
| "Map_set k v ((k', v') # m) = (if k' = k then (k, v) # m else (k', v') # Map_set k v m)"

definition new_SentryUtil :: "Config \<Rightarrow> SentryUtil" where
  "new_SentryUtil c = \<lparr>config = c, clientPool = []\<rparr>"

definition axios_create :: "nat \<Rightarrow> SentryClientOptions \<Rightarrow> AxiosInstance" where
  "axios_create r options =
     \<lparr>ref = r, baseURL = baseUrl options,
      headers = [(''Authorization'', ''Bearer '' @ authToken options),
                 (''Content-Type'', ''application/json'')]\<rparr>"

text \<open>
  \<open>getClient this heap profileName\<close>: \<open>heap\<close> is the next unused reference. The
  result is the exception thrown, or the client with the object and the heap as the call
  leaves them.
\<close>

definition SentryUtil_getClient ::
  "SentryUtil \<Rightarrow> nat \<Rightarrow> json \<Rightarrow> js_error + (AxiosInstance \<times> SentryUtil \<times> nat)" where
  "SentryUtil_getClient this heap profileName =
     (case map_of (clientPool this) profileName of
        Some client \<Rightarrow> Inr (client, this, heap)
      | None \<Rightarrow>
         (case getSentryClientOptions (config this) profileName of
            Inl e \<Rightarrow> Inl e
          | Inr options \<Rightarrow>
              let client = axios_create heap options in
              Inr (client,
                   this\<lparr>clientPool := Map_set profileName client (clientPool this)\<rparr>,
                   Suc heap)))"

definition SentryUtil_getClientOptions :: "SentryUtil \<Rightarrow> json \<Rightarrow> js_error + SentryClientOptions" where
  "SentryUtil_getClientOptions this profileName = getSentryClientOptions (config this) profileName"

definition SentryUtil_clearClients :: "SentryUtil \<Rightarrow> SentryUtil" where
  "SentryUtil_clearClients this = this\<lparr>clientPool := []\<rparr>"

text \<open>
  The \<^verbatim>\<open>catch\<close> block that every operation ends with:
  \<^verbatim>\<open>axios.isAxiosError(error) ? error.response?.data?.detail || error.message
     : error instanceof Error ? error.message : String(error)\<close>.
\<close>

definition response_detail :: "response option \<Rightarrow> json option" where
  "response_detail r =
     (case r of
        None \<Rightarrow> None
      | Some resp \<Rightarrow> (case resp_data resp of None \<Rightarrow> None | Some d \<Rightarrow> get_prop d ''detail''))"

fun errorMessage :: "js_error \<Rightarrow> json" where
  "errorMessage (AxiosError r m) = or_else (response_detail r) (JStr m)"
| "errorMessage (JsError m) = JStr m"
| "errorMessage (Thrown v) = JStr (to_string v)"

definition catch_result :: "js_error \<Rightarrow> ApiResult" where
  "catch_result e =
     \<lparr>success = False, result = None, data = None,
      error = Some (''ERROR: '' @ to_string (errorMessage e))\<rparr>"

text \<open>
  What an operation leaves: its result, the object and the heap after the call, and the
  requests it sent.
\<close>

record op_outcome =
  api_result :: ApiResult
  this_after :: SentryUtil
  heap_after :: nat
  sent :: "http_request list"

text \<open>
  The \<^verbatim>\<open>try\<close> block that every operation has: get the client, get the options, await
  one request, build the result from the response; any exception goes to the
  \<^verbatim>\<open>catch\<close> block.
\<close>

definition try_request ::
  "env \<Rightarrow> SentryUtil \<Rightarrow> nat \<Rightarrow> json
    \<Rightarrow> (SentryClientOptions \<Rightarrow> AxiosInstance \<Rightarrow> http_request)
    \<Rightarrow> (SentryClientOptions \<Rightarrow> response \<Rightarrow> ApiResult) \<Rightarrow> op_outcome" where
  "try_request e this heap profileName request on_success =
     (case SentryUtil_getClient this heap profileName of
        Inl err \<Rightarrow>
          \<lparr>api_result = catch_result err, this_after = this, heap_after = heap, sent = []\<rparr>
      | Inr (client, this', heap') \<Rightarrow>
         (case SentryUtil_getClientOptions this' profileName of
            Inl err \<Rightarrow>
              \<lparr>api_result = catch_result err, this_after = this', heap_after = heap', sent = []\<rparr>
          | Inr options \<Rightarrow>
             (let req = request options client in
              case http e req of
                Inl err \<Rightarrow>
                  \<lparr>api_result = catch_result err, this_after = this', heap_after = heap',
                   sent = [req]\<rparr>
              | Inr resp \<Rightarrow>
                  \<lparr>api_result = on_success options resp, this_after = this', heap_after = heap',
                   sent = [req]\<rparr>)))"

definition formatted :: "env \<Rightarrow> json option \<Rightarrow> SentryClientOptions \<Rightarrow> response \<Rightarrow> ApiResult" where
  "formatted e format options resp =
     \<lparr>success = True, result = formatResult (encode e) (resp_data resp) format,
      data = resp_data resp, error = None\<rparr>"

definition get_request :: "string \<Rightarrow> json option \<Rightarrow> AxiosInstance \<Rightarrow> http_request" where
  "get_request u ps client = \<lparr>req_method = GET, req_client = client, req_url = u, req_params = ps, req_body = None\<rparr>"

definition put_request :: "string \<Rightarrow> json option \<Rightarrow> AxiosInstance \<Rightarrow> http_request" where
  "put_request u d client = \<lparr>req_method = PUT, req_client = client, req_url = u, req_params = None, req_body = d\<rparr>"

subsection \<open>The operations\<close>

text \<open>
  Identifiers, parameters and format arrive from the untyped argument object, so they are
  values that may be undefined; a template literal applies ToString to them.
\<close>

definition SentryUtil_listProjectEvents ::
  "env \<Rightarrow> SentryUtil \<Rightarrow> nat \<Rightarrow> json \<Rightarrow> json option \<Rightarrow> json option \<Rightarrow> json option \<Rightarrow> op_outcome" where
  "SentryUtil_listProjectEvents e this heap profileName projectSlug params format =
     try_request e this heap profileName
       (\<lambda>options. get_request
          (''/projects/'' @ organization options @ ''/'' @ to_string_opt projectSlug @ ''/events/'')
          params)
       (formatted e format)"

definition SentryUtil_listProjectIssues ::
  "env \<Rightarrow> SentryUtil \<Rightarrow> nat \<Rightarrow> json \<Rightarrow> json option \<Rightarrow> json option \<Rightarrow> json option \<Rightarrow> op_outcome" where
  "SentryUtil_listProjectIssues e this heap profileName projectSlug params format =
     try_request e this heap profileName
       (\<lambda>options. get_request
          (''/projects/'' @ organization options @ ''/'' @ to_string_opt projectSlug @ ''/issues/'')
          params)
       (formatted e format)"

definition SentryUtil_listOrgIssues ::
  "env \<Rightarrow> SentryUtil \<Rightarrow> nat \<Rightarrow> json \<Rightarrow> json option \<Rightarrow> json option \<Rightarrow> op_outcome" where
  "SentryUtil_listOrgIssues e this heap profileName params format =
     try_request e this heap profileName
       (\<lambda>options. get_request
          (''/organizations/'' @ organization options @ ''/issues/'')
          params)
       (formatted e format)"

definition SentryUtil_getIssue ::
  "env \<Rightarrow> SentryUtil \<Rightarrow> nat \<Rightarrow> json \<Rightarrow> json option \<Rightarrow> json option \<Rightarrow> op_outcome" where
  "SentryUtil_getIssue e this heap profileName issueId format =
     try_request e this heap profileName
       (\<lambda>options. get_request
          (''/organizations/'' @ organization options @ ''/issues/'' @ to_string_opt issueId @ ''/'')
          None)
       (formatted e format)"

definition check_mark :: string where
  "check_mark = [CHR 0xE2, CHR 0x9C, CHR 0x85]"

definition SentryUtil_updateIssue ::
  "env \<Rightarrow> SentryUtil \<Rightarrow> nat \<Rightarrow> json \<Rightarrow> json option \<Rightarrow> json option \<Rightarrow> op_outcome" where
  "SentryUtil_updateIssue e this heap profileName issueId data' =
     try_request e this heap profileName
       (\<lambda>options. put_request
          (''/organizations/'' @ organization options @ ''/issues/'' @ to_string_opt issueId @ ''/'')
          data')
       (\<lambda>options resp.
          \<lparr>success = True,
           result = Some (check_mark @ '' Issue '' @ to_string_opt issueId @ '' updated successfully!''),
           data = resp_data resp, error = None\<rparr>)"

definition SentryUtil_listIssueEvents ::
  "env \<Rightarrow> SentryUtil \<Rightarrow> nat \<Rightarrow> json \<Rightarrow> json option \<Rightarrow> json option \<Rightarrow> json option \<Rightarrow> op_outcome" where
  "SentryUtil_listIssueEvents e this heap profileName issueId params format =
     try_request e this heap profileName
       (\<lambda>options. get_request
          (''/organizations/'' @ organization options @ ''/issues/'' @ to_string_opt issueId @ ''/events/'')
          params)
       (formatted e format)"

definition SentryUtil_getEvent ::
  "env \<Rightarrow> SentryUtil \<Rightarrow> nat \<Rightarrow> json \<Rightarrow> json option \<Rightarrow> json option \<Rightarrow> json option \<Rightarrow> op_outcome" where
  "SentryUtil_getEvent e this heap profileName projectSlug eventId format =
     try_request e this heap profileName
       (\<lambda>options. get_request
          (''/projects/'' @ organization options @ ''/'' @ to_string_opt projectSlug @ ''/events/'' @ to_string_opt eventId @ ''/'')
          None)
       (formatted e format)"

definition SentryUtil_getIssueEvent ::
  "env \<Rightarrow> SentryUtil \<Rightarrow> nat \<Rightarrow> json \<Rightarrow> json option \<Rightarrow> json option \<Rightarrow> json option \<Rightarrow> op_outcome" where
  "SentryUtil_getIssueEvent e this heap profileName issueId eventId format =
     try_request e this heap profileName
       (\<lambda>options. get_request
          (''/organizations/'' @ organization options @ ''/issues/'' @ to_string_opt issueId @ ''/events/''
           @ to_string_opt eventId @ ''/'')
          None)
       (formatted e format)"

definition SentryUtil_getTagDetails ::
  "env \<Rightarrow> SentryUtil \<Rightarrow> nat \<Rightarrow> json \<Rightarrow> json option \<Rightarrow> json option \<Rightarrow> json option \<Rightarrow> json option \<Rightarrow> op_outcome" where
  "SentryUtil_getTagDetails e this heap profileName issueId tagKey params format =
     try_request e this heap profileName
       (\<lambda>options. get_request
          (''/organizations/'' @ organization options @ ''/issues/'' @ to_string_opt issueId @ ''/tags/''
           @ to_string_opt tagKey @ ''/'')
          params)
       (formatted e format)"

definition SentryUtil_listTagValues ::
  "env \<Rightarrow> SentryUtil \<Rightarrow> nat \<Rightarrow> json \<Rightarrow> json option \<Rightarrow> json option \<Rightarrow> json option \<Rightarrow> json option \<Rightarrow> op_outcome" where
  "SentryUtil_listTagValues e this heap profileName issueId tagKey params format =
     try_request e this heap profileName
       (\<lambda>options. get_request
          (''/organizations/'' @ organization options @ ''/issues/'' @ to_string_opt issueId @ ''/tags/''
           @ to_string_opt tagKey @ ''/values/'')
          params)
       (formatted e format)"

definition SentryUtil_listIssueHashes ::
  "env \<Rightarrow> SentryUtil \<Rightarrow> nat \<Rightarrow> json \<Rightarrow> json option \<Rightarrow> json option \<Rightarrow> op_outcome" where
  "SentryUtil_listIssueHashes e this heap profileName issueId format =
     try_request e this heap profileName
       (\<lambda>options. get_request
          (''/organizations/'' @ organization options @ ''/issues/'' @ to_string_opt issueId @ ''/hashes/'')
          None)
       (formatted e format)"

definition SentryUtil_debugSourceMaps ::
  "env \<Rightarrow> SentryUtil \<Rightarrow> nat \<Rightarrow> json \<Rightarrow> json option \<Rightarrow> json option \<Rightarrow> json option \<Rightarrow> json option \<Rightarrow> op_outcome" where
  "SentryUtil_debugSourceMaps e this heap profileName projectSlug eventId params format =
     try_request e this heap profileName
       (\<lambda>options. get_request
          (''/projects/'' @ organization options @ ''/'' @ to_string_opt projectSlug @ ''/events/'' @ to_string_opt eventId
           @ ''/source-map-debug/'')
          params)
       (formatted e format)"

definition SentryUtil_testConnection :: "env \<Rightarrow> SentryUtil \<Rightarrow> nat \<Rightarrow> json \<Rightarrow> op_outcome" where
  "SentryUtil_testConnection e this heap profileName =
     try_request e this heap profileName
       (\<lambda>options. get_request
          (''/organizations/'' @ organization options @ ''/issues/'')
          (Some (JObj [(''limit'', JNum 1)])))
       (\<lambda>options resp.
          \<lparr>success = True,
           result = Some (check_mark @ '' Connection successful!'' @ [CHR 0x0A, CHR 0x0A]
                     @ ''Profile: '' @ to_string profileName @ [CHR 0x0A]
                     @ ''Organization: '' @ organization options @ [CHR 0x0A]
                     @ ''Base URL: '' @ baseUrl options @ [CHR 0x0A]
                     @ ''Status: Connected''),
           data = Some (JObj [(''organization'', JStr (organization options)),
                              (''baseUrl'', JStr (baseUrl options))]),
           error = None\<rparr>)"

section \<open>The module of wrapper functions\<close>

text \<open>
  The state of the process: the module variable \<^verbatim>\<open>sentryUtil\<close>, the next unused
  object reference, the requests sent so far, and the lines written to standard output
  and standard error.
\<close>

record world =
  sentryUtil :: "SentryUtil option"
  next_ref :: nat
  requests :: "http_request list"
  stdout :: "string list"
  stderr :: "string list"

definition initSentry :: "env \<Rightarrow> world \<Rightarrow> js_error + (SentryUtil \<times> world)" where
  "initSentry e w =
     (case sentryUtil w of
        Some s \<Rightarrow> Inr (s, w)
      | None \<Rightarrow>
         (case loadConfig e of
            Inl err \<Rightarrow> Inl (JsError (''Failed to initialize Sentry client: '' @ error_message err))
          | Inr c \<Rightarrow> Inr (new_SentryUtil c, w\<lparr>sentryUtil := Some (new_SentryUtil c)\<rparr>)))"

text \<open>
  Every wrapper is \<^verbatim>\<open>const sentry = await initSentry(); return await sentry.op(...)\<close>:
  the method runs on the object the module variable holds.
\<close>

definition with_sentry ::
  "env \<Rightarrow> world \<Rightarrow> (SentryUtil \<Rightarrow> nat \<Rightarrow> op_outcome) \<Rightarrow> world \<times> (js_error + ApiResult)" where
  "with_sentry e w op =
     (case initSentry e w of
        Inl err \<Rightarrow> (w, Inl err)
      | Inr (sentry, w') \<Rightarrow>
          let r = op sentry (next_ref w') in
          (w'\<lparr>sentryUtil := Some (this_after r), next_ref := heap_after r,
              requests := requests w' @ sent r\<rparr>,
           Inr (api_result r)))"

definition listProjectEvents ::
  "env \<Rightarrow> world \<Rightarrow> json \<Rightarrow> json option \<Rightarrow> json option \<Rightarrow> json option \<Rightarrow> world \<times> (js_error + ApiResult)" where
  "listProjectEvents e w profile projectSlug ps format =
     with_sentry e w (\<lambda>sentry heap. SentryUtil_listProjectEvents e sentry heap profile projectSlug ps format)"

definition listProjectIssues ::
  "env \<Rightarrow> world \<Rightarrow> json \<Rightarrow> json option \<Rightarrow> json option \<Rightarrow> json option \<Rightarrow> world \<times> (js_error + ApiResult)" where
  "listProjectIssues e w profile projectSlug ps format =
     with_sentry e w (\<lambda>sentry heap. SentryUtil_listProjectIssues e sentry heap profile projectSlug ps format)"

definition listOrgIssues ::
  "env \<Rightarrow> world \<Rightarrow> json \<Rightarrow> json option \<Rightarrow> json option \<Rightarrow> world \<times> (js_error + ApiResult)" where
  "listOrgIssues e w profile ps format =
     with_sentry e w (\<lambda>sentry heap. SentryUtil_listOrgIssues e sentry heap profile ps format)"

definition getIssue ::
  "env \<Rightarrow> world \<Rightarrow> json \<Rightarrow> json option \<Rightarrow> json option \<Rightarrow> world \<times> (js_error + ApiResult)" where
  "getIssue e w profile issueId format =
     with_sentry e w (\<lambda>sentry heap. SentryUtil_getIssue e sentry heap profile issueId format)"

definition updateIssue ::
  "env \<Rightarrow> world \<Rightarrow> json \<Rightarrow> json option \<Rightarrow> json option \<Rightarrow> world \<times> (js_error + ApiResult)" where
  "updateIssue e w profile issueId d =
     with_sentry e w (\<lambda>sentry heap. SentryUtil_updateIssue e sentry heap profile issueId d)"

definition listIssueEvents ::
  "env \<Rightarrow> world \<Rightarrow> json \<Rightarrow> json option \<Rightarrow> json option \<Rightarrow> json option \<Rightarrow> world \<times> (js_error + ApiResult)" where
  "listIssueEvents e w profile issueId ps format =
     with_sentry e w (\<lambda>sentry heap. SentryUtil_listIssueEvents e sentry heap profile issueId ps format)"

definition getEvent ::
  "env \<Rightarrow> world \<Rightarrow> json \<Rightarrow> json option \<Rightarrow> json option \<Rightarrow> json option \<Rightarrow> world \<times> (js_error + ApiResult)" where
  "getEvent e w profile projectSlug eventId format =
     with_sentry e w (\<lambda>sentry heap. SentryUtil_getEvent e sentry heap profile projectSlug eventId format)"

definition getIssueEvent ::
  "env \<Rightarrow> world \<Rightarrow> json \<Rightarrow> json option \<Rightarrow> json option \<Rightarrow> json option \<Rightarrow> world \<times> (js_error + ApiResult)" where
  "getIssueEvent e w profile issueId eventId format =
     with_sentry e w (\<lambda>sentry heap. SentryUtil_getIssueEvent e sentry heap profile issueId eventId format)"

definition getTagDetails ::
  "env \<Rightarrow> world \<Rightarrow> json \<Rightarrow> json option \<Rightarrow> json option \<Rightarrow> json option \<Rightarrow> json option \<Rightarrow> world \<times> (js_error + ApiResult)" where
  "getTagDetails e w profile issueId tagKey ps format =
     with_sentry e w (\<lambda>sentry heap. SentryUtil_getTagDetails e sentry heap profile issueId tagKey ps format)"

definition listTagValues ::
  "env \<Rightarrow> world \<Rightarrow> json \<Rightarrow> json option \<Rightarrow> json option \<Rightarrow> json option \<Rightarrow> json option \<Rightarrow> world \<times> (js_error + ApiResult)" where
  "listTagValues e w profile issueId tagKey ps format =
     with_sentry e w (\<lambda>sentry heap. SentryUtil_listTagValues e sentry heap profile issueId tagKey ps format)"

definition listIssueHashes ::
  "env \<Rightarrow> world \<Rightarrow> json \<Rightarrow> json option \<Rightarrow> json option \<Rightarrow> world \<times> (js_error + ApiResult)" where
  "listIssueHashes e w profile issueId format =
     with_sentry e w (\<lambda>sentry heap. SentryUtil_listIssueHashes e sentry heap profile issueId format)"

definition debugSourceMaps ::
  "env \<Rightarrow> world \<Rightarrow> json \<Rightarrow> json option \<Rightarrow> json option \<Rightarrow> json option \<Rightarrow> json option \<Rightarrow> world \<times> (js_error + ApiResult)" where
  "debugSourceMaps e w profile projectSlug eventId ps format =
     with_sentry e w (\<lambda>sentry heap. SentryUtil_debugSourceMaps e sentry heap profile projectSlug eventId ps format)"

definition testConnection :: "env \<Rightarrow> world \<Rightarrow> json \<Rightarrow> world \<times> (js_error + ApiResult)" where
  "testConnection e w profile =
     with_sentry e w (\<lambda>sentry heap. SentryUtil_testConnection e sentry heap profile)"

text \<open>
  \<^verbatim>\<open>clearClients()\<close>: when the module variable holds an object, empty its pool and set
  the variable to null.
\<close>

definition clearClients :: "world \<Rightarrow> world" where
  "clearClients w =
     (case sentryUtil w of
        Some s \<Rightarrow> w\<lparr>sentryUtil := None\<rparr>
      | None \<Rightarrow> w)"

section \<open>The command runner\<close>

text \<open>
  How a step inside the \<^verbatim>\<open>try\<close> block ends: with a value, with an exception, or with
  \<^verbatim>\<open>process.exit(n)\<close>, which ends the process at once: nothing after it runs, the
  \<^verbatim>\<open>catch\<close> block included.
\<close>

datatype 'a flow = Value 'a | Throws js_error | Exits nat

datatype completion = Returned | Exited nat

text \<open>
  The argument as \<^verbatim>\<open>arg && arg.trim() !== '' ? JSON.parse(arg) : {}\<close> sees it: null or
  blank, text that \<^verbatim>\<open>JSON.parse\<close> rejects with a SyntaxError of some message, or
  text that it parses to a value.
\<close>

datatype arg_input = NoArg | BadJson string | Json json

fun parse_arg :: "arg_input \<Rightarrow> js_error + json" where
  "parse_arg NoArg = Inr (JObj [])"
| "parse_arg (BadJson m) = Inl (JsError m)"
| "parse_arg (Json v) = Inr v"

definition cli_keys :: "string list" where
  "cli_keys = [''profile'', ''format'', ''projectSlug'', ''issueId'', ''eventId'', ''tagKey'']"

text \<open>
  The own enumerable properties that an object pattern with a rest element copies from a
  non-null value: those of an object, the indexed elements of an array, the indexed
  characters of a string, none of a number or a boolean.
\<close>

fun own_properties :: "json \<Rightarrow> (string \<times> json) list" where
  "own_properties (JObj kvs) = kvs"
| "own_properties (JArr xs) = zip (map show_nat [0..<length xs]) xs"
| "own_properties (JStr s) = zip (map show_nat [0..<length s]) (map (\<lambda>c. JStr [c]) s)"
| "own_properties v = []"

text \<open>
  \<^verbatim>\<open>filterCliParams\<close> is a closure of the \<^verbatim>\<open>try\<close> block, created after
  \<^verbatim>\<open>args.profile\<close> has been read, and applied to \<^verbatim>\<open>args\<close> only: its argument is
  never null.
\<close>

definition filterCliParams :: "json \<Rightarrow> json" where
  "filterCliParams ps = JObj (filter (\<lambda>(k, v). k \<notin> set cli_keys) (own_properties ps))"

definition exit_error :: "world \<Rightarrow> string \<Rightarrow> world \<times> ApiResult flow" where
  "exit_error w msg = (w\<lparr>stderr := stderr w @ [msg]\<rparr>, Exits 1)"

fun await :: "world \<times> (js_error + ApiResult) \<Rightarrow> world \<times> ApiResult flow" where
  "await (w, Inl err) = (w, Throws err)"
| "await (w, Inr r) = (w, Value r)"

text \<open>The \<^verbatim>\<open>switch (command)\<close>.\<close>

definition dispatch ::
  "env \<Rightarrow> world \<Rightarrow> string \<Rightarrow> json \<Rightarrow> json \<Rightarrow> json \<Rightarrow> world \<times> ApiResult flow" where
  \<open>dispatch e w command args profile format =
     (if command = ''list-project-events'' then
        (if \<not> is_truthy (get_prop args ''projectSlug'')
         then exit_error w ''ERROR: "projectSlug" parameter is required''
         else await (listProjectEvents e w profile (get_prop args ''projectSlug'')
                       (Some (filterCliParams args)) (Some format)))
      else if command = ''list-project-issues'' then
        (if \<not> is_truthy (get_prop args ''projectSlug'')
         then exit_error w ''ERROR: "projectSlug" parameter is required''
         else await (listProjectIssues e w profile (get_prop args ''projectSlug'')
                       (Some (filterCliParams args)) (Some format)))
      else if command = ''list-org-issues'' then
        await (listOrgIssues e w profile (Some (filterCliParams args)) (Some format))
      else if command = ''get-issue'' then
        (if \<not> is_truthy (get_prop args ''issueId'')
         then exit_error w ''ERROR: "issueId" parameter is required''
         else await (getIssue e w profile (get_prop args ''issueId'') (Some format)))
      else if command = ''update-issue'' then
        (if \<not> is_truthy (get_prop args ''issueId'')
         then exit_error w ''ERROR: "issueId" parameter is required''
         else await (updateIssue e w profile (get_prop args ''issueId'')
                       (Some (filterCliParams args))))
      else if command = ''list-issue-events'' then
        (if \<not> is_truthy (get_prop args ''issueId'')
         then exit_error w ''ERROR: "issueId" parameter is required''
         else await (listIssueEvents e w profile (get_prop args ''issueId'')
                       (Some (filterCliParams args)) (Some format)))
      else if command = ''get-event'' then
        (if \<not> is_truthy (get_prop args ''projectSlug'') \<or> \<not> is_truthy (get_prop args ''eventId'')
         then exit_error w ''ERROR: "projectSlug" and "eventId" parameters are required''
         else await (getEvent e w profile (get_prop args ''projectSlug'')
                       (get_prop args ''eventId'') (Some format)))
      else if command = ''get-issue-event'' then
        (if \<not> is_truthy (get_prop args ''issueId'') \<or> \<not> is_truthy (get_prop args ''eventId'')
         then exit_error w ''ERROR: "issueId" and "eventId" parameters are required''
         else await (getIssueEvent e w profile (get_prop args ''issueId'')
                       (get_prop args ''eventId'') (Some format)))
      else if command = ''get-tag-details'' then
        (if \<not> is_truthy (get_prop args ''issueId'') \<or> \<not> is_truthy (get_prop args ''tagKey'')
         then exit_error w ''ERROR: "issueId" and "tagKey" parameters are required''
         else await (getTagDetails e w profile (get_prop args ''issueId'')
                       (get_prop args ''tagKey'') (Some (filterCliParams args)) (Some format)))
      else if command = ''list-tag-values'' then
        (if \<not> is_truthy (get_prop args ''issueId'') \<or> \<not> is_truthy (get_prop args ''tagKey'')
         then exit_error w ''ERROR: "issueId" and "tagKey" parameters are required''
         else await (listTagValues e w profile (get_prop args ''issueId'')
                       (get_prop args ''tagKey'') (Some (filterCliParams args)) (Some format)))
      else if command = ''list-issue-hashes'' then
        (if \<not> is_truthy (get_prop args ''issueId'')
         then exit_error w ''ERROR: "issueId" parameter is required''
         else await (listIssueHashes e w profile (get_prop args ''issueId'') (Some format)))
      else if command = ''debug-source-maps'' then
        (if \<not> is_truthy (get_prop args ''projectSlug'') \<or> \<not> is_truthy (get_prop args ''eventId'')
         then exit_error w ''ERROR: "projectSlug" and "eventId" parameters are required''
         else await (debugSourceMaps e w profile (get_prop args ''projectSlug'')
                       (get_prop args ''eventId'') (Some (filterCliParams args)) (Some format)))
      else if command = ''test-connection'' then
        await (testConnection e w profile)
      else exit_error w (''Unknown command: '' @ command))\<close>

text \<open>
  After the switch: print the result and clear the clients, or print the error and
  exit.
\<close>

definition display :: "world \<Rightarrow> ApiResult \<Rightarrow> world \<times> unit flow" where
  "display w r =
     (if success r
      then (clearClients
              (w\<lparr>stdout := stdout w @ [case result r of None \<Rightarrow> ''undefined'' | Some t \<Rightarrow> t]\<rparr>),
            Value ())
      else (w\<lparr>stderr := stderr w @ [case error r of None \<Rightarrow> ''undefined'' | Some t \<Rightarrow> t]\<rparr>,
            Exits 1))"

text \<open>The \<^verbatim>\<open>try\<close> block. Reading \<^verbatim>\<open>args.profile\<close> of null throws a TypeError.\<close>

definition try_block :: "env \<Rightarrow> world \<Rightarrow> string \<Rightarrow> arg_input \<Rightarrow> world \<times> unit flow" where
  "try_block e w command arg =
     (case loadConfig e of
        Inl err \<Rightarrow> (w, Throws err)
      | Inr cfg \<Rightarrow>
         (case parse_arg arg of
            Inl err \<Rightarrow> (w, Throws err)
          | Inr args \<Rightarrow>
              if args = JNull
              then (w, Throws (JsError ''Cannot read properties of null (reading 'profile')''))
              else
                let profile = or_else (get_prop args ''profile'') (JStr (defaultProfile cfg));
                    format = or_else (get_prop args ''format'') (JStr (defaultFormat cfg))
                in (case dispatch e w command args profile format of
                      (w', Value r) \<Rightarrow> display w' r
                    | (w', Throws err) \<Rightarrow> (w', Throws err)
                    | (w', Exits n) \<Rightarrow> (w', Exits n))))"

text \<open>
  \<open>runCommand\<close>: the \<^verbatim>\<open>try\<close> block and the \<^verbatim>\<open>catch\<close> block, which prints, clears
  the clients and exits. The third parameter of the source is unused.
\<close>

definition runCommand :: "env \<Rightarrow> world \<Rightarrow> string \<Rightarrow> arg_input \<Rightarrow> world \<times> completion" where
  "runCommand e w command arg =
     (case try_block e w command arg of
        (w', Value u) \<Rightarrow> (w', Returned)
      | (w', Exits n) \<Rightarrow> (w', Exited n)
      | (w', Throws err) \<Rightarrow>
          (clearClients (w'\<lparr>stderr := stderr w' @ [''Error executing command: '' @ error_message err]\<rparr>),
           Exited 1))"

section \<open>Notions used to state the properties\<close>



text \<open>
  The two methods that touch the client pool, and the state of an object after a sequence
  of such calls; a lookup that throws leaves the object as it was.
\<close>

datatype pool_call = GetClient json | ClearClients

fun after_calls :: "SentryUtil \<Rightarrow> nat \<Rightarrow> pool_call list \<Rightarrow> SentryUtil \<times> nat" where
  "after_calls this heap [] = (this, heap)"
| "after_calls this heap (GetClient p # cs) =
     (case SentryUtil_getClient this heap p of
        Inl err \<Rightarrow> after_calls this heap cs
      | Inr (client, this', heap') \<Rightarrow> after_calls this' heap' cs)"
| "after_calls this heap (ClearClients # cs) = after_calls (SentryUtil_clearClients this) heap cs"

text \<open>
  The invariant of the pool: no key twice, every client older than the next reference,
  and every key a profile that the configuration resolves.
\<close>

definition pool_ok :: "SentryUtil \<Rightarrow> nat \<Rightarrow> bool" where
  "pool_ok this heap \<longleftrightarrow>
     distinct (map fst (clientPool this)) \<and>
     (\<forall>(k, c) \<in> set (clientPool this). ref c < heap \<and> (\<exists>options. getSentryClientOptions (config this) k = Inr options))"

text \<open>
  The parameters that \<^verbatim>\<open>COMMANDS_DETAIL\<close> marks as required, for each command of
  \<^verbatim>\<open>COMMANDS\<close>.
\<close>

definition COMMANDS_required :: "(string \<times> string list) list" where
  "COMMANDS_required =
     [(''list-project-events'', [''projectSlug'']),
      (''list-project-issues'', [''projectSlug'']),
      (''list-org-issues'', []),
      (''get-issue'', [''issueId'']),
      (''update-issue'', [''issueId'']),
      (''list-issue-events'', [''issueId'']),
      (''get-event'', [''projectSlug'', ''eventId'']),
      (''get-issue-event'', [''issueId'', ''eventId'']),
      (''get-tag-details'', [''issueId'', ''tagKey'']),
      (''list-tag-values'', [''issueId'', ''tagKey'']),
      (''list-issue-hashes'', [''issueId'']),
      (''debug-source-maps'', [''projectSlug'', ''eventId'']),
      (''test-connection'', [])]"

definition required_fields :: "string \<Rightarrow> string list" where
  "required_fields command = (case map_of COMMANDS_required command of Some fs \<Rightarrow> fs | None \<Rightarrow> [])"

text \<open>The message for one required parameter, and the message for two.\<close>

definition required_message :: "string list \<Rightarrow> string" where
  \<open>required_message fs =
     (case fs of
        [f] \<Rightarrow> ''ERROR: "'' @ f @ ''" parameter is required''
      | [f, g] \<Rightarrow> ''ERROR: "'' @ f @ ''" and "'' @ g @ ''" parameters are required''
      | _ \<Rightarrow> [])\<close>

text \<open>
  The message in the words of the specification:
  \<^verbatim>\<open>ERROR: "<field>" parameter is required\<close>.
\<close>

definition spec_required_message :: "string \<Rightarrow> string" where
  \<open>spec_required_message f = ''ERROR: "'' @ f @ ''" parameter is required''\<close>

text \<open>
  What a request of the runner may carry: as query parameters nothing, the filtered
  argument object, or the fixed \<open>limit\<close> of the connection test; as body nothing or the
  filtered argument object. Then: a step of the runner that adds only such requests.
\<close>

definition forwards :: "json \<Rightarrow> http_request \<Rightarrow> bool" where
  "forwards args r \<longleftrightarrow>
     (req_params r = None \<or> req_params r = Some (filterCliParams args)
        \<or> req_params r = Some (JObj [(''limit'', JNum 1)])) \<and>
     (req_body r = None \<or> req_body r = Some (filterCliParams args))"

definition only_forwards :: "json \<Rightarrow> world \<Rightarrow> world \<times> 'a \<Rightarrow> bool" where
  "only_forwards args w x \<longleftrightarrow>
     (\<exists>new. requests (fst x) = requests w @ new \<and> (\<forall>r \<in> set new. forwards args r))"

subsection \<open>Concrete surroundings\<close>

text \<open>
  A configuration with the single profile \<open>default\<close>, an upstream service that gives
  the same answer to every request, and the state of a fresh process.
\<close>

definition example_options :: SentryClientOptions where
  "example_options = \<lparr>baseUrl = ''https://sentry.io/api/0'', authToken = ''token'', organization = ''acme''\<rparr>"

definition example_config :: Config where
  "example_config =
     \<lparr>defaultProfile = ''default'', defaultFormat = ''json'',
      getSentryClientOptions =
        (\<lambda>p. if p = JStr ''default'' then Inr example_options
             else Inl (JsError ''Profile not found''))\<rparr>"

definition example_env :: "(js_error + response) \<Rightarrow> env" where
  "example_env answer =
     \<lparr>loadConfig = Inr example_config, encode = (\<lambda>v. ''toon''), http = (\<lambda>r. answer)\<rparr>"

definition not_found :: "js_error + response" where
  "not_found = Inl (AxiosError
      (Some \<lparr>resp_status = 404, resp_data = Some (JObj [(''detail'', JStr ''Issue not found'')])\<rparr>)
      ''Request failed with status code 404'')"


definition updated :: "js_error + response" where
  "updated = Inr \<lparr>resp_status = 200,
      resp_data = Some (JObj [(''id'', JStr ''123''), (''status'', JStr ''resolved'')])\<rparr>"

definition initial_world :: world where
  "initial_world = \<lparr>sentryUtil = None, next_ref = 0, requests = [], stdout = [], stderr = []\<rparr>"

section \<open>Properties of the result formatter\<close>

text \<open>
  Claim C8. Rendering null or absent data with format \<open>toon\<close> gives the empty string,
  whatever the encoder is (it is not called); rendering null with format \<open>json\<close>, or
  with the default format, gives the string \<open>null\<close>.
\<close>

theorem formatResult_null:
  "formatResult enc None (Some (JStr ''toon'')) = Some [] \<and>
   formatResult enc (Some JNull) (Some (JStr ''toon'')) = Some [] \<and>
   formatResult enc (Some JNull) (Some (JStr ''json'')) = Some ''null'' \<and>
   formatResult enc (Some JNull) None = Some ''null''"
  by (simp add: formatResult_def formatAsToon_def formatAsJson_def default_format_def
      JSON_stringify_def)

theorem formatResult_null_witness:
  "formatResult to_string None (Some (JStr ''toon'')) = Some [] \<and>
   formatResult to_string (Some JNull) (Some (JStr ''toon'')) = Some [] \<and>
   to_string JNull = ''null'' \<and>
   formatResult to_string (Some JNull) (Some (JStr ''json'')) = Some ''null''"
  using formatResult_null [of to_string] by simp

text \<open>
  Claim C9. With format \<open>toon\<close> every falsy payload renders as the empty string, whatever
  the encoder would give for it: in particular the number 0, the boolean false and the
  empty string.
\<close>

theorem formatAsToon_falsy:
  "(\<not> is_truthy d \<longrightarrow>
      formatAsToon enc d = [] \<and> formatResult enc d (Some (JStr ''toon'')) = Some []) \<and>
   formatAsToon enc (Some (JNum 0)) = [] \<and>
   formatAsToon enc (Some (JBool False)) = [] \<and>
   formatAsToon enc (Some (JStr [])) = []"
  by (simp add: formatResult_def formatAsToon_def default_format_def is_truthy_def
      split: option.splits)

theorem formatAsToon_falsy_witness:
  "\<not> is_truthy (Some (JNum 0)) \<and> to_string (JNum 0) = ''0'' \<and>
   formatResult to_string (Some (JNum 0)) (Some (JStr ''toon'')) = Some []"
  using formatAsToon_falsy [of "Some (JNum 0)" to_string]
  by (simp add: is_truthy_def Number_toString_def show_int_def show_nat.simps digit_char_def)

section \<open>Properties of the operations\<close>

lemmas op_defs = SentryUtil_listProjectEvents_def SentryUtil_listProjectIssues_def
  SentryUtil_listOrgIssues_def SentryUtil_getIssue_def SentryUtil_updateIssue_def
  SentryUtil_listIssueEvents_def SentryUtil_getEvent_def SentryUtil_getIssueEvent_def
  SentryUtil_getTagDetails_def SentryUtil_listTagValues_def SentryUtil_listIssueHashes_def
  SentryUtil_debugSourceMaps_def SentryUtil_testConnection_def







lemmas request_defs = try_request_def SentryUtil_getClient_def SentryUtil_getClientOptions_def
  new_SentryUtil_def axios_create_def get_request_def put_request_def catch_result_def
  response_detail_def or_else_def to_string_opt_def formatted_def Let_def



text \<open>
  Claim C6. When the request of \<open>updateIssue\<close> is answered (a 2xx response), the result
  is successful and its message is the fixed confirmation with the issue id and
  \<open>updated successfully\<close>; the response body appears in \<open>data\<close> only.
\<close>

theorem updateIssue_confirmation:
  assumes "sent (SentryUtil_updateIssue e this heap p issueId d) = [r]" and "http e r = Inr resp"
  shows "api_result (SentryUtil_updateIssue e this heap p issueId d) =
           \<lparr>success = True,
            result = Some (check_mark @ '' Issue '' @ to_string_opt issueId
                             @ '' updated successfully!''),
            data = resp_data resp, error = None\<rparr>"
  using assms
  by (auto simp: SentryUtil_updateIssue_def try_request_def Let_def split: sum.splits prod.splits)

theorem updateIssue_confirmation_witness:
  "result (api_result (SentryUtil_updateIssue (example_env updated) (new_SentryUtil example_config) 0
             (JStr ''default'') (Some (JStr ''123'')) (Some (JObj [(''status'', JStr ''resolved'')]))))
     = Some (check_mark @ '' Issue 123 updated successfully!'')"
proof -
  let ?r = "put_request ''/organizations/acme/issues/123/''
              (Some (JObj [(''status'', JStr ''resolved'')])) (axios_create 0 example_options)"
  have 1: "sent (SentryUtil_updateIssue (example_env updated) (new_SentryUtil example_config) 0
             (JStr ''default'') (Some (JStr ''123'')) (Some (JObj [(''status'', JStr ''resolved'')])))
           = [?r]"
    by (simp add: SentryUtil_updateIssue_def request_defs example_env_def example_config_def
        example_options_def updated_def)
  have 2: "http (example_env updated) ?r = Inr \<lparr>resp_status = 200,
      resp_data = Some (JObj [(''id'', JStr ''123''), (''status'', JStr ''resolved'')])\<rparr>"
    by (simp add: example_env_def updated_def)
  from updateIssue_confirmation [OF 1 2] show ?thesis
    by (simp add: to_string_opt_def)
qed

section \<open>Properties of the client pool\<close>

lemma Map_set_keys: "map_of m k = None \<Longrightarrow> map fst (Map_set k v m) = map fst m @ [k]"
  by (induction m) (auto split: if_splits)

lemma Map_set_set: "map_of m k = None \<Longrightarrow> set (Map_set k v m) = insert (k, v) (set m)"
  by (induction m) (auto split: if_splits)

lemma map_of_Map_set: "map_of (Map_set k v m) k = Some v"
  by (induction m) auto

lemma pool_ok_new: "pool_ok (new_SentryUtil c) h"
  by (simp add: pool_ok_def new_SentryUtil_def)

lemma pool_ok_clear: "pool_ok this h \<Longrightarrow> pool_ok (SentryUtil_clearClients this) h"
  by (simp add: pool_ok_def SentryUtil_clearClients_def)

lemma pool_ok_getClient:
  assumes "pool_ok this h" "SentryUtil_getClient this h p = Inr (c, this', h')"
  shows "pool_ok this' h'"
proof (cases "map_of (clientPool this) p")
  case (Some a)
  with assms show ?thesis by (simp add: SentryUtil_getClient_def)
next
  case None
  then obtain options where o: "getSentryClientOptions (config this) p = Inr options"
    and t: "this' = this\<lparr>clientPool := Map_set p (axios_create h options) (clientPool this)\<rparr>"
    and h: "h' = Suc h"
    using assms(2) by (auto simp: SentryUtil_getClient_def Let_def split: sum.splits)
  have notin: "p \<notin> set (map fst (clientPool this))"
    using None by (simp add: map_of_eq_None_iff)
  have d: "distinct (map fst (clientPool this'))"
    using assms(1) notin by (simp add: t Map_set_keys[OF None] pool_ok_def)
  have r: "ref (axios_create h options) < Suc h"
    by (simp add: axios_create_def)
  have old: "\<forall>(k, c) \<in> set (clientPool this). ref c < Suc h \<and>
      (\<exists>options. getSentryClientOptions (config this) k = Inr options)"
    using assms(1) by (fastforce simp: pool_ok_def)
  have "\<forall>(k, c) \<in> set (clientPool this'). ref c < h' \<and>
      (\<exists>options. getSentryClientOptions (config this') k = Inr options)"
    using old r o by (simp add: t h Map_set_set[OF None])
  with d show ?thesis by (simp add: pool_ok_def)
qed

lemma pool_ok_after_calls:
  "pool_ok this h \<Longrightarrow> after_calls this h cs = (this', h') \<Longrightarrow> pool_ok this' h'"
proof (induction this h cs rule: after_calls.induct)
  case (1 this heap)
  then show ?case by simp
next
  case (2 this heap p cs)
  then show ?case
    by (auto split: sum.splits dest: pool_ok_getClient)
next
  case (3 this heap cs)
  then show ?case by (auto dest: pool_ok_clear)
qed

lemma getClient_again:
  assumes "SentryUtil_getClient this h p = Inr (c, this', h')"
  shows "SentryUtil_getClient this' h' p = Inr (c, this', h')"
proof (cases "map_of (clientPool this) p")
  case (Some a)
  with assms show ?thesis by (auto simp add: SentryUtil_getClient_def)
next
  case None
  with assms show ?thesis
    by (auto simp: SentryUtil_getClient_def Let_def map_of_Map_set split: sum.splits)
qed

lemma getClient_ref:
  assumes "pool_ok this h" "SentryUtil_getClient this h p = Inr (c, this', h')"
  shows "ref c < h' \<and> config this' = config this \<and>
         (\<exists>options. getSentryClientOptions (config this) p = Inr options)"
proof (cases "map_of (clientPool this) p")
  case (Some a)
  then have "(p, a) \<in> set (clientPool this)" by (rule map_of_SomeD)
  with assms Some show ?thesis by (auto simp add: SentryUtil_getClient_def pool_ok_def)
next
  case None
  with assms show ?thesis
    by (auto simp: SentryUtil_getClient_def Let_def axios_create_def split: sum.splits)
qed

lemma getClient_after_clear:
  assumes "pool_ok this h" "SentryUtil_getClient this h p = Inr (c, this', h')"
  shows "\<exists>c2 this2. SentryUtil_getClient (SentryUtil_clearClients this') h' p
                       = Inr (c2, this2, Suc h') \<and> ref c2 = h' \<and> ref c2 \<noteq> ref c"
proof -
  from getClient_ref[OF assms] obtain options where
    r: "ref c < h'" and cf: "config this' = config this"
    and o: "getSentryClientOptions (config this) p = Inr options"
    by blast
  show ?thesis using r cf o
    by (simp add: SentryUtil_getClient_def SentryUtil_clearClients_def Let_def axios_create_def)
qed

text \<open>
  Claim C7. In every state that an object reaches from its construction by lookups and
  clearings, the pool holds no profile name twice; a lookup that returns a client is
  followed by a lookup that returns the same client (the same reference) and changes
  nothing; and after \<open>clearClients\<close> the next lookup for that name returns a client
  with another reference.
\<close>

theorem client_pool_identity:
  assumes "after_calls (new_SentryUtil c) h calls = (this, heap)"
  shows "distinct (map fst (clientPool this)) \<and>
         (\<forall>client this1 heap1.
            SentryUtil_getClient this heap p = Inr (client, this1, heap1) \<longrightarrow>
              SentryUtil_getClient this1 heap1 p = Inr (client, this1, heap1) \<and>
              distinct (map fst (clientPool this1)) \<and>
              (\<exists>client2 this2 heap2.
                 SentryUtil_getClient (SentryUtil_clearClients this1) heap1 p
                   = Inr (client2, this2, heap2) \<and>
                 ref client2 \<noteq> ref client))"
proof -
  have ok: "pool_ok this heap" using pool_ok_after_calls[OF pool_ok_new assms] .
  then have d: "distinct (map fst (clientPool this))" by (simp add: pool_ok_def)
  show ?thesis
  proof (intro conjI allI impI)
    show "distinct (map fst (clientPool this))" by (rule d)
  next
    fix client this1 heap1
    assume g: "SentryUtil_getClient this heap p = Inr (client, this1, heap1)"
    show "SentryUtil_getClient this1 heap1 p = Inr (client, this1, heap1)"
      by (rule getClient_again[OF g])
    show "distinct (map fst (clientPool this1))"
      using pool_ok_getClient[OF ok g] by (simp add: pool_ok_def)
    show "\<exists>client2 this2 heap2.
            SentryUtil_getClient (SentryUtil_clearClients this1) heap1 p
              = Inr (client2, this2, heap2) \<and>
            ref client2 \<noteq> ref client"
      using getClient_after_clear[OF ok g] by blast
  qed
qed

theorem client_pool_identity_witness:
  "after_calls (new_SentryUtil example_config) 0 [GetClient (JStr ''default''), ClearClients]
     = (\<lparr>config = example_config, clientPool = []\<rparr>, 1) \<and>
   SentryUtil_getClient \<lparr>config = example_config, clientPool = []\<rparr> 1 (JStr ''default'')
     = Inr (axios_create 1 example_options,
            \<lparr>config = example_config,
             clientPool = [(JStr ''default'', axios_create 1 example_options)]\<rparr>, 2) \<and>
   SentryUtil_getClient
       \<lparr>config = example_config,
        clientPool = [(JStr ''default'', axios_create 1 example_options)]\<rparr> 2 (JStr ''default'')
     = Inr (axios_create 1 example_options,
            \<lparr>config = example_config,
             clientPool = [(JStr ''default'', axios_create 1 example_options)]\<rparr>, 2) \<and>
   (\<exists>client2 this2 heap2.
      SentryUtil_getClient
          (SentryUtil_clearClients
             \<lparr>config = example_config,
              clientPool = [(JStr ''default'', axios_create 1 example_options)]\<rparr>)
          2 (JStr ''default'')
        = Inr (client2, this2, heap2) \<and>
      ref client2 \<noteq> ref (axios_create 1 example_options))"
proof -
  have 1: "after_calls (new_SentryUtil example_config) 0 [GetClient (JStr ''default''), ClearClients]
     = (\<lparr>config = example_config, clientPool = []\<rparr>, 1)"
    by (simp add: SentryUtil_getClient_def SentryUtil_clearClients_def new_SentryUtil_def
        example_config_def Let_def)
  have 2: "SentryUtil_getClient \<lparr>config = example_config, clientPool = []\<rparr> 1 (JStr ''default'')
     = Inr (axios_create 1 example_options,
            \<lparr>config = example_config,
             clientPool = [(JStr ''default'', axios_create 1 example_options)]\<rparr>, 2)"
    by (simp add: SentryUtil_getClient_def example_config_def Let_def)
  note 3 = client_pool_identity [OF 1, of "JStr ''default''", THEN conjunct2, rule_format, OF 2]
  show ?thesis
    by (intro conjI) (rule 1, rule 2, rule 3 [THEN conjunct1], rule 3 [THEN conjunct2, THEN conjunct2])
qed

section \<open>Properties of the command runner\<close>

lemmas wrapper_defs = listProjectEvents_def listProjectIssues_def listOrgIssues_def getIssue_def
  updateIssue_def listIssueEvents_def getEvent_def getIssueEvent_def getTagDetails_def
  listTagValues_def listIssueHashes_def debugSourceMaps_def testConnection_def

lemma try_request_sent:
  "r \<in> set (sent (try_request e this heap p rq on)) \<Longrightarrow> \<exists>options client. r = rq options client"
  by (auto simp: try_request_def Let_def split: sum.splits prod.splits)

lemma with_sentry_requests:
  assumes "\<And>sentry heap r. r \<in> set (sent (op sentry heap)) \<Longrightarrow> P r"
  shows "\<exists>new. requests (fst (with_sentry e w op)) = requests w @ new \<and> (\<forall>r \<in> set new. P r)"
  using assms
  by (auto simp: with_sentry_def initSentry_def Let_def split: sum.splits prod.splits option.splits)

lemma await_fst: "fst (await x) = fst x"
  by (cases x; cases "snd x") auto

lemma sent_params:
  "r \<in> set (sent (try_request e this heap p (\<lambda>options. get_request (u options) ps) on))
     \<Longrightarrow> req_params r = ps \<and> req_body r = None"
  "r \<in> set (sent (try_request e this heap p (\<lambda>options. put_request (u options) d) on))
     \<Longrightarrow> req_params r = None \<and> req_body r = d"
  by (auto dest!: try_request_sent simp: get_request_def put_request_def)

lemma wrapper_requests:
  "\<exists>new. requests (fst (listProjectEvents e w p a (Some (filterCliParams args)) f)) = requests w @ new \<and> (\<forall>r \<in> set new. forwards args r)"
  "\<exists>new. requests (fst (listProjectIssues e w p a (Some (filterCliParams args)) f)) = requests w @ new \<and> (\<forall>r \<in> set new. forwards args r)"
  "\<exists>new. requests (fst (listOrgIssues e w p (Some (filterCliParams args)) f)) = requests w @ new \<and> (\<forall>r \<in> set new. forwards args r)"
  "\<exists>new. requests (fst (getIssue e w p a f)) = requests w @ new \<and> (\<forall>r \<in> set new. forwards args r)"
  "\<exists>new. requests (fst (updateIssue e w p a (Some (filterCliParams args)))) = requests w @ new \<and> (\<forall>r \<in> set new. forwards args r)"
  "\<exists>new. requests (fst (listIssueEvents e w p a (Some (filterCliParams args)) f)) = requests w @ new \<and> (\<forall>r \<in> set new. forwards args r)"
  "\<exists>new. requests (fst (getEvent e w p a b f)) = requests w @ new \<and> (\<forall>r \<in> set new. forwards args r)"
  "\<exists>new. requests (fst (getIssueEvent e w p a b f)) = requests w @ new \<and> (\<forall>r \<in> set new. forwards args r)"
  "\<exists>new. requests (fst (getTagDetails e w p a b (Some (filterCliParams args)) f)) = requests w @ new \<and> (\<forall>r \<in> set new. forwards args r)"
  "\<exists>new. requests (fst (listTagValues e w p a b (Some (filterCliParams args)) f)) = requests w @ new \<and> (\<forall>r \<in> set new. forwards args r)"
  "\<exists>new. requests (fst (listIssueHashes e w p a f)) = requests w @ new \<and> (\<forall>r \<in> set new. forwards args r)"
  "\<exists>new. requests (fst (debugSourceMaps e w p a b (Some (filterCliParams args)) f)) = requests w @ new \<and> (\<forall>r \<in> set new. forwards args r)"
  "\<exists>new. requests (fst (testConnection e w p)) = requests w @ new \<and> (\<forall>r \<in> set new. forwards args r)"
  unfolding wrapper_defs op_defs
  by (rule with_sentry_requests, drule sent_params, simp add: forwards_def)+

lemma only_forwards_if:
  "only_forwards args w A \<Longrightarrow> only_forwards args w B \<Longrightarrow> only_forwards args w (if c then A else B)"
  by simp

lemma only_forwards_exit: "only_forwards args w (exit_error w m)"
  by (simp add: only_forwards_def exit_error_def)

lemma only_forwards_await: "only_forwards args w x \<Longrightarrow> only_forwards args w (await x)"
  by (simp add: only_forwards_def await_fst)

lemmas only_forwards_wrappers = wrapper_requests [folded only_forwards_def]

lemma dispatch_requests: "only_forwards args w (dispatch e w command args profile format)"
  unfolding dispatch_def
  by (intro only_forwards_if only_forwards_exit only_forwards_await only_forwards_wrappers)

lemma clearClients_requests: "requests (clearClients w) = requests w"
  by (simp add: clearClients_def split: option.splits)

lemma display_requests: "requests (fst (display w r)) = requests w"
  by (simp add: display_def clearClients_requests)

lemma try_block_requests:
  "\<exists>new. requests (fst (try_block e w command (Json args))) = requests w @ new \<and>
         (\<forall>r \<in> set new. forwards args r)"
proof -
  have "\<exists>new. requests (fst (case dispatch e w command args p f of
                       (w', Value r) \<Rightarrow> display w' r
                     | (w', Throws err) \<Rightarrow> (w', Throws err)
                     | (w', Exits n) \<Rightarrow> (w', Exits n))) = requests w @ new \<and>
         (\<forall>r \<in> set new. forwards args r)" for p f
    using dispatch_requests[of args w e command p f]
    by (auto simp: only_forwards_def display_requests split: prod.splits flow.splits)
  then show ?thesis
    by (simp add: try_block_def Let_def split: sum.splits)
qed

lemma runCommand_requests:
  "\<exists>new. requests (fst (runCommand e w command (Json args))) = requests w @ new \<and>
         (\<forall>r \<in> set new. forwards args r)"
  using try_block_requests[of e w command args]
  by (auto simp: runCommand_def clearClients_requests split: prod.splits flow.splits)

text \<open>
  Claim C3. For an argument object, the parameter object that \<open>filterCliParams\<close>
  builds has none of the keys \<open>profile\<close>, \<open>format\<close>, \<open>projectSlug\<close>, \<open>issueId\<close>,
  \<open>eventId\<close>, \<open>tagKey\<close>, and has every other key of the object with its value, in
  the same order; and every request that a run on that object sends carries, as query
  parameters and as body, that parameter object or nothing (the connection test carries
  its fixed \<open>limit\<close>).
\<close>

theorem filterCliParams_strips:
  "(\<exists>kvs'. filterCliParams (JObj kvs) = JObj kvs' \<and>
      (\<forall>k \<in> set cli_keys. k \<notin> fst ` set kvs') \<and>
      (\<forall>k. k \<notin> set cli_keys \<longrightarrow> map_of kvs' k = map_of kvs k) \<and>
      kvs' = filter (\<lambda>(k, v). k \<notin> set cli_keys) kvs \<and>
      set cli_keys = {''profile'', ''format'', ''projectSlug'', ''issueId'', ''eventId'', ''tagKey''}) \<and>
   (\<exists>new. requests (fst (runCommand e w command (Json (JObj kvs)))) = requests w @ new \<and>
      (\<forall>r \<in> set new. forwards (JObj kvs) r))"
proof -
  have keep: "map_of (filter (\<lambda>(k, v). k \<notin> S) kvs) k = map_of kvs k" if "k \<notin> S" for k S
    using that by (induction kvs) auto
  have gone: "k \<notin> fst ` set (filter (\<lambda>(k, v). k \<notin> S) kvs)" if "k \<in> S" for k S
    using that by auto
  have keys: "set cli_keys = {''profile'', ''format'', ''projectSlug'', ''issueId'', ''eventId'', ''tagKey''}"
    by (simp add: cli_keys_def)
  have 1: "\<exists>kvs'. filterCliParams (JObj kvs) = JObj kvs' \<and>
      (\<forall>k \<in> set cli_keys. k \<notin> fst ` set kvs') \<and>
      (\<forall>k. k \<notin> set cli_keys \<longrightarrow> map_of kvs' k = map_of kvs k) \<and>
      kvs' = filter (\<lambda>(k, v). k \<notin> set cli_keys) kvs \<and>
      set cli_keys = {''profile'', ''format'', ''projectSlug'', ''issueId'', ''eventId'', ''tagKey''}"
    unfolding filterCliParams_def own_properties.simps
    using keep[of _ "set cli_keys"] gone[of _ "set cli_keys"] keys by blast
  have 2: "\<exists>new. requests (fst (runCommand e w command (Json (JObj kvs)))) = requests w @ new \<and>
      (\<forall>r \<in> set new. forwards (JObj kvs) r)"
    by (rule runCommand_requests)
  show ?thesis by (rule conjI) (fact 1, fact 2)
qed

theorem filterCliParams_strips_witness:
  "filterCliParams (JObj [(''projectSlug'', JStr ''my-project''), (''statsPeriod'', JStr ''24h''),
                          (''profile'', JStr ''default''), (''format'', JStr ''json'')])
     = JObj [(''statsPeriod'', JStr ''24h'')] \<and>
   requests (fst (runCommand (example_env updated) initial_world ''list-project-events''
      (Json (JObj [(''projectSlug'', JStr ''my-project''), (''statsPeriod'', JStr ''24h''),
                   (''profile'', JStr ''default''), (''format'', JStr ''json'')]))))
     = [get_request ''/projects/acme/my-project/events/''
          (Some (JObj [(''statsPeriod'', JStr ''24h'')])) (axios_create 0 example_options)]"
proof -
  let ?kvs = "[(''projectSlug'', JStr ''my-project''), (''statsPeriod'', JStr ''24h''),
               (''profile'', JStr ''default''), (''format'', JStr ''json'')]"
  have f: "filterCliParams (JObj ?kvs) = JObj [(''statsPeriod'', JStr ''24h'')]"
    using filterCliParams_strips [of ?kvs "example_env updated" initial_world
        "''list-project-events''"]
    by (simp add: cli_keys_def)
  have r: "requests (fst (runCommand (example_env updated) initial_world ''list-project-events''
      (Json (JObj ?kvs))))
     = [get_request ''/projects/acme/my-project/events/''
          (Some (JObj [(''statsPeriod'', JStr ''24h'')])) (axios_create 0 example_options)]"
    by (simp add: runCommand_def try_block_def dispatch_def is_truthy_def with_sentry_def
        initSentry_def display_def clearClients_def listProjectEvents_def
        SentryUtil_listProjectEvents_def try_request_def SentryUtil_getClient_def
        SentryUtil_getClientOptions_def new_SentryUtil_def get_request_def or_else_def
        to_string_opt_def formatted_def Let_def f example_env_def updated_def initial_world_def
        example_config_def example_options_def)
  from f r show ?thesis by simp
qed

lemma required_commands:
  "f \<in> set (required_fields command) \<Longrightarrow>
     command = ''list-project-events'' \<or>
     command = ''list-project-issues'' \<or>
     command = ''get-issue'' \<or>
     command = ''update-issue'' \<or>
     command = ''list-issue-events'' \<or>
     command = ''get-event'' \<or>
     command = ''get-issue-event'' \<or>
     command = ''get-tag-details'' \<or>
     command = ''list-tag-values'' \<or>
     command = ''list-issue-hashes'' \<or>
     command = ''debug-source-maps''"
  by (simp add: required_fields_def COMMANDS_required_def split: if_splits)

lemma dispatch_required_list_project_events:
  "f \<in> set (required_fields ''list-project-events'') \<Longrightarrow> \<not> is_truthy (get_prop args f) \<Longrightarrow>
   dispatch e w ''list-project-events'' args profile format =
     exit_error w (required_message (required_fields ''list-project-events''))"
  by (auto simp: required_fields_def COMMANDS_required_def required_message_def dispatch_def)

lemma dispatch_required_list_project_issues:
  "f \<in> set (required_fields ''list-project-issues'') \<Longrightarrow> \<not> is_truthy (get_prop args f) \<Longrightarrow>
   dispatch e w ''list-project-issues'' args profile format =
     exit_error w (required_message (required_fields ''list-project-issues''))"
  by (auto simp: required_fields_def COMMANDS_required_def required_message_def dispatch_def)

lemma dispatch_required_get_issue:
  "f \<in> set (required_fields ''get-issue'') \<Longrightarrow> \<not> is_truthy (get_prop args f) \<Longrightarrow>
   dispatch e w ''get-issue'' args profile format =
     exit_error w (required_message (required_fields ''get-issue''))"
  by (auto simp: required_fields_def COMMANDS_required_def required_message_def dispatch_def)

lemma dispatch_required_update_issue:
  "f \<in> set (required_fields ''update-issue'') \<Longrightarrow> \<not> is_truthy (get_prop args f) \<Longrightarrow>
   dispatch e w ''update-issue'' args profile format =
     exit_error w (required_message (required_fields ''update-issue''))"
  by (auto simp: required_fields_def COMMANDS_required_def required_message_def dispatch_def)

lemma dispatch_required_list_issue_events:
  "f \<in> set (required_fields ''list-issue-events'') \<Longrightarrow> \<not> is_truthy (get_prop args f) \<Longrightarrow>
   dispatch e w ''list-issue-events'' args profile format =
     exit_error w (required_message (required_fields ''list-issue-events''))"
  by (auto simp: required_fields_def COMMANDS_required_def required_message_def dispatch_def)

lemma dispatch_required_get_event:
  "f \<in> set (required_fields ''get-event'') \<Longrightarrow> \<not> is_truthy (get_prop args f) \<Longrightarrow>
   dispatch e w ''get-event'' args profile format =
     exit_error w (required_message (required_fields ''get-event''))"
  by (auto simp: required_fields_def COMMANDS_required_def required_message_def dispatch_def)

lemma dispatch_required_get_issue_event:
  "f \<in> set (required_fields ''get-issue-event'') \<Longrightarrow> \<not> is_truthy (get_prop args f) \<Longrightarrow>
   dispatch e w ''get-issue-event'' args profile format =
     exit_error w (required_message (required_fields ''get-issue-event''))"
  by (auto simp: required_fields_def COMMANDS_required_def required_message_def dispatch_def)

lemma dispatch_required_get_tag_details:
  "f \<in> set (required_fields ''get-tag-details'') \<Longrightarrow> \<not> is_truthy (get_prop args f) \<Longrightarrow>
   dispatch e w ''get-tag-details'' args profile format =
     exit_error w (required_message (required_fields ''get-tag-details''))"
  by (auto simp: required_fields_def COMMANDS_required_def required_message_def dispatch_def)

lemma dispatch_required_list_tag_values:
  "f \<in> set (required_fields ''list-tag-values'') \<Longrightarrow> \<not> is_truthy (get_prop args f) \<Longrightarrow>
   dispatch e w ''list-tag-values'' args profile format =
     exit_error w (required_message (required_fields ''list-tag-values''))"
  by (auto simp: required_fields_def COMMANDS_required_def required_message_def dispatch_def)

lemma dispatch_required_list_issue_hashes:
  "f \<in> set (required_fields ''list-issue-hashes'') \<Longrightarrow> \<not> is_truthy (get_prop args f) \<Longrightarrow>
   dispatch e w ''list-issue-hashes'' args profile format =
     exit_error w (required_message (required_fields ''list-issue-hashes''))"
  by (auto simp: required_fields_def COMMANDS_required_def required_message_def dispatch_def)

lemma dispatch_required_debug_source_maps:
  "f \<in> set (required_fields ''debug-source-maps'') \<Longrightarrow> \<not> is_truthy (get_prop args f) \<Longrightarrow>
   dispatch e w ''debug-source-maps'' args profile format =
     exit_error w (required_message (required_fields ''debug-source-maps''))"
  by (auto simp: required_fields_def COMMANDS_required_def required_message_def dispatch_def)

lemma dispatch_required:
  assumes "f \<in> set (required_fields command)" "\<not> is_truthy (get_prop args f)"
  shows "dispatch e w command args profile format =
           exit_error w (required_message (required_fields command))"
  using required_commands[OF assms(1)] assms
  by - (elim disjE; hypsubst; (rule dispatch_required_list_project_events
    dispatch_required_list_project_issues
    dispatch_required_get_issue
    dispatch_required_update_issue
    dispatch_required_list_issue_events
    dispatch_required_get_event
    dispatch_required_get_issue_event
    dispatch_required_get_tag_details
    dispatch_required_list_tag_values
    dispatch_required_list_issue_hashes
    dispatch_required_debug_source_maps; assumption))

lemma runCommand_required:
  assumes "loadConfig e = Inr cfg" "parse_arg arg = Inr args" "args \<noteq> JNull"
    "f \<in> set (required_fields command)" "\<not> is_truthy (get_prop args f)"
  shows "runCommand e w command arg =
           (w\<lparr>stderr := stderr w @ [required_message (required_fields command)]\<rparr>, Exited 1)"
  using assms(1-3)
  by (simp add: runCommand_def try_block_def dispatch_required[OF assms(4,5)] exit_error_def)

lemma required_message_names:
  assumes "f \<in> set (required_fields command)"
  shows "\<exists>pre post. required_message (required_fields command) = pre @ [CHR 0x22] @ f @ [CHR 0x22] @ post"
proof -
  have one: "\<exists>pre post. required_message [a] = pre @ [CHR 0x22] @ a @ [CHR 0x22] @ post" for a
    by (rule exI[of _ "''ERROR: ''"], rule exI[of _ "'' parameter is required''"])
       (simp add: required_message_def)
  have two1: "\<exists>pre post. required_message [a, b] = pre @ [CHR 0x22] @ a @ [CHR 0x22] @ post" for a b
    by (rule exI[of _ "''ERROR: ''"], rule exI[of _ "'' and '' @ [CHR 0x22] @ b @ [CHR 0x22] @ '' parameters are required''"])
       (simp add: required_message_def)
  have two2: "\<exists>pre post. required_message [a, b] = pre @ [CHR 0x22] @ b @ [CHR 0x22] @ post" for a b
    by (rule exI[of _ "''ERROR: '' @ [CHR 0x22] @ a @ [CHR 0x22] @ '' and ''"], rule exI[of _ "'' parameters are required''"])
       (simp add: required_message_def)
  from assms consider a where "required_fields command = [a]" "f = a"
    | a b where "required_fields command = [a, b]" "f = a \<or> f = b"
    by (auto simp: required_fields_def COMMANDS_required_def split: if_splits)
  then show ?thesis
  proof cases
    case 1 then show ?thesis using one by simp
  next
    case 2 then show ?thesis using two1 two2 by auto
  qed
qed

lemma map_of_filter_key: "map_of (filter (\<lambda>(k, v). k \<noteq> f) kvs) f = None"
  by (induction kvs) auto

lemmas run_defs = runCommand_def try_block_def dispatch_def is_truthy_def
  with_sentry_def initSentry_def display_def clearClients_def exit_error_def

text \<open>
  Claim C2, as amended. With a configuration that loads and an argument that is blank or
  parses to a value other than null, a command invoked without one of its required
  parameters prints one fixed message that names the parameter in quotes and exits with
  status 1, the state being otherwise untouched: no operation ran, no request was sent.
  For a command with one required parameter the message is
  \<^verbatim>\<open>ERROR: "<field>" parameter is required\<close>; for a command with two it names both.
\<close>

theorem required_field_missing:
  assumes "loadConfig e = Inr cfg" and "parse_arg arg = Inr args" and "args \<noteq> JNull"
    and "f \<in> set (required_fields command)" and "get_prop args f = None"
  shows "runCommand e w command arg =
           (w\<lparr>stderr := stderr w @ [required_message (required_fields command)]\<rparr>, Exited 1)
         \<and> (required_fields command = [f] \<longrightarrow>
              required_message (required_fields command) = spec_required_message f)
         \<and> (\<exists>pre post. required_message (required_fields command) =
                          pre @ [CHR 0x22] @ f @ [CHR 0x22] @ post)"
proof -
  have "\<not> is_truthy (get_prop args f)" using assms(5) by (simp add: is_truthy_def)
  from runCommand_required[OF assms(1-4) this] required_message_names[OF assms(4)]
  show ?thesis by (auto simp: required_message_def spec_required_message_def)
qed

theorem required_field_missing_witness:
  "runCommand (example_env not_found) initial_world ''get-issue'' NoArg =
     (initial_world\<lparr>stderr := [spec_required_message ''issueId'']\<rparr>, Exited 1)"
proof -
  have 1: "loadConfig (example_env not_found) = Inr example_config" by (simp add: example_env_def)
  have 2: "parse_arg NoArg = Inr (JObj [])" by simp
  have 3: "JObj [] \<noteq> JNull" by simp
  have 4: "''issueId'' \<in> set (required_fields ''get-issue'')"
    by (simp add: required_fields_def COMMANDS_required_def)
  have 5: "get_prop (JObj []) ''issueId'' = None" by simp
  have 6: "required_fields ''get-issue'' = [''issueId'']"
    by (simp add: required_fields_def COMMANDS_required_def)
  from required_field_missing [OF 1 2 3 4 5, of initial_world] 6 show ?thesis
    by (simp add: initial_world_def)
qed

text \<open>
  Claim C2, as stated, fails: \<open>get-event\<close> declares \<open>eventId\<close> required, and invoked
  without it prints a message that is not \<^verbatim>\<open>ERROR: "eventId" parameter is required\<close>.
\<close>

theorem required_message_counterexample:
  \<open>''eventId'' \<in> set (required_fields ''get-event'') \<and>
   get_prop (JObj [(''projectSlug'', JStr ''my-project'')]) ''eventId'' = None \<and>
   stderr (fst (runCommand (example_env not_found) initial_world ''get-event''
                  (Json (JObj [(''projectSlug'', JStr ''my-project'')]))))
     = [''ERROR: "projectSlug" and "eventId" parameters are required''] \<and>
   stderr (fst (runCommand (example_env not_found) initial_world ''get-event''
                  (Json (JObj [(''projectSlug'', JStr ''my-project'')]))))
     \<noteq> [spec_required_message ''eventId'']\<close>
  by (simp add: run_defs or_else_def required_fields_def COMMANDS_required_def
      spec_required_message_def example_env_def initial_world_def)

text \<open>
  Claim C10. A required parameter that is present with a falsy value (the empty string,
  0, false, null) is treated as an absent one: the run prints the same message, exits
  with status 1 and leaves the state otherwise untouched, exactly as the run on the
  argument object without that parameter does.
\<close>

theorem required_field_falsy:
  assumes "loadConfig e = Inr cfg" and "f \<in> set (required_fields command)"
    and "\<not> is_truthy (map_of kvs f)"
  shows "runCommand e w command (Json (JObj kvs)) =
           (w\<lparr>stderr := stderr w @ [required_message (required_fields command)]\<rparr>, Exited 1)
         \<and> runCommand e w command (Json (JObj kvs)) =
             runCommand e w command (Json (JObj (filter (\<lambda>(k, v). k \<noteq> f) kvs)))"
proof -
  have a: "\<not> is_truthy (get_prop (JObj kvs) f)" using assms(3) by simp
  have b: "\<not> is_truthy (get_prop (JObj (filter (\<lambda>(k, v). k \<noteq> f) kvs)) f)"
    by (simp add: map_of_filter_key is_truthy_def)
  have p: "parse_arg (Json (JObj js)) = Inr (JObj js)" "JObj js \<noteq> JNull" for js by simp_all
  show ?thesis
    using runCommand_required[OF assms(1) p assms(2) a, of w]
          runCommand_required[OF assms(1) p assms(2) b, of w] by simp
qed

theorem required_field_falsy_witness:
  "\<not> is_truthy (Some (JStr [])) \<and>
   runCommand (example_env not_found) initial_world ''list-project-events''
      (Json (JObj [(''projectSlug'', JStr [])])) =
     (initial_world\<lparr>stderr := [spec_required_message ''projectSlug'']\<rparr>, Exited 1) \<and>
   runCommand (example_env not_found) initial_world ''list-project-events''
      (Json (JObj [(''projectSlug'', JStr [])])) =
   runCommand (example_env not_found) initial_world ''list-project-events'' (Json (JObj []))"
proof -
  have 1: "loadConfig (example_env not_found) = Inr example_config" by (simp add: example_env_def)
  have 2: "''projectSlug'' \<in> set (required_fields ''list-project-events'')"
    by (simp add: required_fields_def COMMANDS_required_def)
  have 3: "\<not> is_truthy (map_of [(''projectSlug'', JStr [])] ''projectSlug'')"
    by (simp add: is_truthy_def)
  have 4: "required_message (required_fields ''list-project-events'')
             = spec_required_message ''projectSlug''"
    by (simp add: required_fields_def COMMANDS_required_def required_message_def
        spec_required_message_def)
  note c = required_field_falsy [OF 1 2 3, of initial_world]
  have a: "runCommand (example_env not_found) initial_world ''list-project-events''
             (Json (JObj [(''projectSlug'', JStr [])])) =
           (initial_world\<lparr>stderr := [spec_required_message ''projectSlug'']\<rparr>, Exited 1)"
    using c[THEN conjunct1] by (simp add: 4 initial_world_def)
  have b: "runCommand (example_env not_found) initial_world ''list-project-events''
             (Json (JObj [(''projectSlug'', JStr [])])) =
            runCommand (example_env not_found) initial_world ''list-project-events'' (Json (JObj []))"
    using c[THEN conjunct2] by simp
  have "\<not> is_truthy (Some (JStr []))" by (simp add: is_truthy_def)
  with a b show ?thesis by blast
qed

text \<open>
  The path that prints a result ends with the clients cleared, and so does the path
  through the \<^verbatim>\<open>catch\<close> block.
\<close>

lemma runCommand_Returned_cleared:
  "runCommand e w command arg = (w', Returned) \<Longrightarrow> sentryUtil w' = None"
  by (auto simp: runCommand_def try_block_def display_def clearClients_def Let_def
      split: sum.splits prod.splits flow.splits if_splits option.splits)

lemma runCommand_catch_cleared:
  "try_block e w command arg = (w1, Throws err) \<Longrightarrow>
   \<exists>w'. runCommand e w command arg = (w', Exited 1) \<and> sentryUtil w' = None"
  by (auto simp: runCommand_def clearClients_def split: option.splits)

text \<open>
  Claim C1 says that the client cache is cleared on every path, the path of an API error
  result included. On that path the runner prints the error and exits before the call
  of \<open>clearClients\<close>: for \<open>get-issue\<close> with issue id 123 and an upstream that answers
  404, the run ends with status 1 and the module variable still holds the object, whose
  pool holds the client of the profile.
\<close>

theorem api_error_leaves_clients:
  "runCommand (example_env not_found) initial_world ''get-issue''
       (Json (JObj [(''issueId'', JStr ''123'')])) =
     (\<lparr>sentryUtil = Some \<lparr>config = example_config,
                           clientPool = [(JStr ''default'', axios_create 0 example_options)]\<rparr>,
       next_ref = 1,
       requests = [get_request ''/organizations/acme/issues/123/'' None
                     (axios_create 0 example_options)],
       stdout = [], stderr = [''ERROR: Issue not found'']\<rparr>, Exited 1)"
  by (simp add: run_defs request_defs getIssue_def SentryUtil_getIssue_def example_env_def
      not_found_def initial_world_def example_config_def example_options_def)

end
